theory Spec2Isabelle
  imports Main "HOL-Library.Sublist"
begin

section \<open>The host language: calls, exceptions and promises\<close>

text \<open>
  A call of a method or of a callback runs on the caller's state \<open>'s\<close> (whatever the
  callbacks can observe and change), and either returns a result (\<open>Inr\<close>) or throws
  (\<open>Inl\<close>); in both cases the changes it made to the state persist. Callbacks are
  assumed to come back (returning or throwing).

  What is thrown is either an \<open>Error\<close> object built by \<open>new Error(message)\<close>, of which only
  the message is kept, or any other thing \<open>'x\<close> that a callback or the host throws.
\<close>

datatype 'x thrown = Error string | Foreign 'x

type_synonym ('s, 'x, 'a) js = "'s \<Rightarrow> ('x thrown + 'a) \<times> 's"

definition js_return :: "'a \<Rightarrow> ('s, 'x, 'a) js" where
  "js_return a = (\<lambda>s. (Inr a, s))"

definition js_throw :: "'x thrown \<Rightarrow> ('s, 'x, 'a) js" where
  "js_throw x = (\<lambda>s. (Inl x, s))"

text \<open>Evaluating \<open>m\<close>, then \<open>k\<close> on its result; what \<open>m\<close> throws goes through.\<close>

definition js_bind :: "('s, 'x, 'a) js \<Rightarrow> ('a \<Rightarrow> ('s, 'x, 'b) js) \<Rightarrow> ('s, 'x, 'b) js" where
  "js_bind m k = (\<lambda>s. case m s of (Inl x, s') \<Rightarrow> (Inl x, s') | (Inr a, s') \<Rightarrow> k a s')"

text \<open>
  A promise is represented by the way it settles: it fulfills with a value, rejects with a
  reason, or stays pending for ever.
\<close>

datatype ('a, 'r) Promise = Fulfilled 'a | Rejected 'r | Pending

text \<open>
  \<open>Promise.resolve(x)\<close> does not always fulfill with \<open>x\<close>: when \<open>x\<close> is a thenable (a promise,
  or any object with a \<open>then\<close> method) the new promise follows \<open>x\<close> and settles as \<open>x\<close> does.
  Which values are thenables, and how they settle, is the host's matter and is the
  parameter \<open>thenable\<close>: \<open>None\<close> for a value that is not a thenable.
  \<open>Promise.reject(r)\<close> rejects with \<open>r\<close> itself, whatever \<open>r\<close> is.
\<close>

definition Promise_resolve :: "('a \<Rightarrow> ('a, 'r) Promise option) \<Rightarrow> 'a \<Rightarrow> ('a, 'r) Promise" where
  "Promise_resolve thenable x = (case thenable x of None \<Rightarrow> Fulfilled x | Some p \<Rightarrow> p)"

definition Promise_reject :: "'r \<Rightarrow> ('a, 'r) Promise" where
  "Promise_reject r = Rejected r"

text \<open>
  \<open>p.then(onFulfilled)\<close> and \<open>p.catch(onRejected)\<close> for handlers that return normally, as
  the two of \<open>fromPromise\<close> do: the new promise is resolved with what the handler returns;
  a settlement the handler is not for is passed on.
\<close>

fun promise_then ::
  "('b \<Rightarrow> ('b, 'r) Promise option) \<Rightarrow> ('a, 'r) Promise \<Rightarrow> ('a \<Rightarrow> 'b) \<Rightarrow> ('b, 'r) Promise" where
  "promise_then thenable (Fulfilled x) onFulfilled = Promise_resolve thenable (onFulfilled x)"
| "promise_then thenable (Rejected r) onFulfilled = Rejected r"
| "promise_then thenable Pending onFulfilled = Pending"

fun promise_catch ::
  "('a \<Rightarrow> ('a, 'q) Promise option) \<Rightarrow> ('a, 'r) Promise \<Rightarrow> ('r \<Rightarrow> 'a) \<Rightarrow> ('a, 'q) Promise" where
  "promise_catch thenable (Fulfilled x) onRejected = Fulfilled x"
| "promise_catch thenable (Rejected r) onRejected = Promise_resolve thenable (onRejected r)"
| "promise_catch thenable Pending onRejected = Pending"

section \<open>The Result type of \<open>result.ts\<close>\<close>

text \<open>
  \<open>Result<T, E> = Ok<T, E> | Err<T, E>\<close>: class \<open>Ok\<close> with its one field \<open>value\<close>, class
  \<open>Err\<close> with its one field \<open>error\<close>; the constructor is the \<open>_tag\<close>.
\<close>

datatype ('t, 'e) Result = Ok 't | Err 'e

definition ok :: "'t \<Rightarrow> ('s, 'x, ('t, 'e) Result) js" where
  "ok v = js_return (Ok v)"

definition err :: "'e \<Rightarrow> ('s, 'x, ('t, 'e) Result) js" where
  "err e = js_return (Err e)"

fun isOk :: "('t, 'e) Result \<Rightarrow> ('s, 'x, bool) js" where
  "isOk (Ok v) = js_return True"
| "isOk (Err e) = js_return False"

fun isErr :: "('t, 'e) Result \<Rightarrow> ('s, 'x, bool) js" where
  "isErr (Ok v) = js_return False"
| "isErr (Err e) = js_return True"

text \<open>
  \<open>Err.unwrap\<close> builds its message with a template literal, which converts \<open>this.error\<close> to
  a string first. That conversion is the host's (\<open>to_string\<close>): on an object it runs the
  object's own \<open>toString\<close>, and on a symbol it throws, so it is a call like any other.
\<close>

fun unwrap :: "('e \<Rightarrow> ('s, 'x, string) js) \<Rightarrow> ('t, 'e) Result \<Rightarrow> ('s, 'x, 't) js" where
  "unwrap to_string (Ok v) = js_return v"
| "unwrap to_string (Err e) =
     js_bind (to_string e) (\<lambda>txt. js_throw (Error (''Called unwrap on an Err value: '' @ txt)))"

fun unwrapOr :: "('t, 'e) Result \<Rightarrow> 't \<Rightarrow> ('s, 'x, 't) js" where
  "unwrapOr (Ok v) defaultValue = js_return v"
| "unwrapOr (Err e) defaultValue = js_return defaultValue"

fun unwrapErr :: "('t, 'e) Result \<Rightarrow> ('s, 'x, 'e) js" where
  "unwrapErr (Ok v) = js_throw (Error ''Called unwrapErr on an Ok value'')"
| "unwrapErr (Err e) = js_return e"

fun map_result :: "('t, 'e) Result \<Rightarrow> ('t \<Rightarrow> ('s, 'x, 'u) js) \<Rightarrow> ('s, 'x, ('u, 'e) Result) js" where
  "map_result (Ok v) fn = js_bind (fn v) (\<lambda>u. js_return (Ok u))"
| "map_result (Err e) fn = js_return (Err e)"

fun mapErr :: "('t, 'e) Result \<Rightarrow> ('e \<Rightarrow> ('s, 'x, 'f) js) \<Rightarrow> ('s, 'x, ('t, 'f) Result) js" where
  "mapErr (Ok v) fn = js_return (Ok v)"
| "mapErr (Err e) fn = js_bind (fn e) (\<lambda>f. js_return (Err f))"

fun andThen ::
  "('t, 'e) Result \<Rightarrow> ('t \<Rightarrow> ('s, 'x, ('u, 'e) Result) js) \<Rightarrow> ('s, 'x, ('u, 'e) Result) js" where
  "andThen (Ok v) fn = fn v"
| "andThen (Err e) fn = js_return (Err e)"

text \<open>
  The argument of \<open>match\<close>: \<open>{ ok: (value: T) => U; err: (error: E) => U }\<close>. Its fields
  are \<open>ok_fn\<close> and \<open>err_fn\<close> here, \<open>ok\<close> and \<open>err\<close> being the two constructor functions.
\<close>

record ('s, 'x, 't, 'e, 'u) patterns =
  ok_fn :: "'t \<Rightarrow> ('s, 'x, 'u) js"
  err_fn :: "'e \<Rightarrow> ('s, 'x, 'u) js"

fun match :: "('t, 'e) Result \<Rightarrow> ('s, 'x, 't, 'e, 'u) patterns \<Rightarrow> ('s, 'x, 'u) js" where
  "match (Ok v) patterns = ok_fn patterns v"
| "match (Err e) patterns = err_fn patterns e"

fun asPromise ::
  "('t \<Rightarrow> ('t, 'e) Promise option) \<Rightarrow> ('t, 'e) Result \<Rightarrow> ('s, 'x, ('t, 'e) Promise) js" where
  "asPromise thenable (Ok v) = js_return (Promise_resolve thenable v)"
| "asPromise thenable (Err e) = js_return (Promise_reject e)"

text \<open>Instances of \<open>Ok\<close> and \<open>Err\<close> have no \<open>then\<close> method: a Result is never a thenable.\<close>

definition result_thenable :: "('t, 'e) Result \<Rightarrow> (('t, 'e) Result, 'q) Promise option" where
  "result_thenable r = None"

definition fromPromise :: "('t, 'e) Promise \<Rightarrow> ('s, 'x, (('t, 'e) Result, 'q) Promise) js" where
  "fromPromise promise =
     js_return
       (promise_catch result_thenable
          (promise_then result_thenable promise (\<lambda>v. Ok v))
          (\<lambda>error. Err error))"

section \<open>Observers used to state the properties\<close>

text \<open>
  A callback as a test would pass it: it computes \<open>f\<close> and appends the argument it was
  called with (under \<open>label\<close>) to a log of calls, which is the state.
\<close>

definition spy :: "('a \<Rightarrow> 'l) \<Rightarrow> ('a \<Rightarrow> 'b) \<Rightarrow> 'a \<Rightarrow> ('l list, 'x, 'b) js" where
  "spy label f a = (\<lambda>calls. (Inr (f a), calls @ [label a]))"

text \<open>The outcome of a call is a thrown \<open>Error\<close> whose message contains \<open>txt\<close>.\<close>

fun raises_mentioning :: "string \<Rightarrow> ('x thrown + 'a) \<times> 's \<Rightarrow> bool" where
  "raises_mentioning txt (Inl (Error message), s) = sublist txt message"
| "raises_mentioning txt (Inl (Foreign x), s) = False"
| "raises_mentioning txt (Inr a, s) = False"

text \<open>The payload of a Success is a thenable.\<close>

fun payload_thenable :: "('t \<Rightarrow> ('t, 'e) Promise option) \<Rightarrow> ('t, 'e) Result \<Rightarrow> bool" where
  "payload_thenable thenable (Ok v) = (thenable v \<noteq> None)"
| "payload_thenable thenable (Err e) = False"

text \<open>
  A small universe of values to run the promise functions on: texts, which are not
  thenables, and promises, given by the way they settle.
\<close>

datatype js_value = Text string | APromise "(js_value, js_value) Promise"

fun js_thenable :: "js_value \<Rightarrow> (js_value, js_value) Promise option" where
  "js_thenable (Text txt) = None"
| "js_thenable (APromise p) = Some p"

section \<open>Laws of calls\<close>

lemma js_bind_return [simp]: "js_bind (js_return a) k = k a"
  by (simp add: js_bind_def js_return_def)

lemma js_bind_throw [simp]: "js_bind (js_throw x) k = js_throw x"
  by (simp add: js_bind_def js_throw_def)

lemma js_bind_return_right [simp]: "js_bind m js_return = m"
  by (auto simp: js_bind_def js_return_def fun_eq_iff split: prod.splits sum.splits)

lemma js_bind_assoc: "js_bind (js_bind m f) g = js_bind m (\<lambda>a. js_bind (f a) g)"
  by (auto simp: js_bind_def fun_eq_iff split: prod.splits sum.splits)

lemma js_bind_run_returned: "m s = (Inr a, s') \<Longrightarrow> js_bind m k s = k a s'"
  by (simp add: js_bind_def)

lemma js_bind_run_thrown: "m s = (Inl x, s') \<Longrightarrow> js_bind m k s = (Inl x, s')"
  by (simp add: js_bind_def)

lemma js_bind_thrown_cases:
  "js_bind m k s = (Inl x, s') \<Longrightarrow>
     m s = (Inl x, s') \<or> (\<exists>a s1. m s = (Inr a, s1) \<and> k a s1 = (Inl x, s'))"
  by (auto simp: js_bind_def split: prod.splits sum.splits)

lemma ok_eta: "(\<lambda>u. js_return (Ok u)) = ok"
  by (rule ext) (simp add: ok_def)

lemma err_eta: "(\<lambda>f. js_return (Err f)) = err"
  by (rule ext) (simp add: err_def)

lemma js_bind_ok [simp]: "js_bind (ok v) k = k (Ok v)"
  by (simp add: ok_def)

lemma js_bind_err [simp]: "js_bind (err e) k = k (Err e)"
  by (simp add: err_def)

lemma spy_run: "spy label f a calls = (Inr (f a), calls @ [label a])"
  by (simp add: spy_def)

section \<open>Extraction\<close>

text \<open>
  C9. Construction and matching extraction agree: \<open>ok(v).unwrap()\<close> returns \<open>v\<close> and
  \<open>ok(v).unwrapOr(d)\<close> returns \<open>v\<close>; \<open>err(e).unwrapErr()\<close> returns \<open>e\<close> and
  \<open>err(e).unwrapOr(d)\<close> returns \<open>d\<close>; and \<open>unwrapOr\<close> returns, without any effect, on
  every Result.
\<close>

theorem construct_then_extract:
  "js_bind (ok v) (unwrap to_string) = js_return v
   \<and> js_bind (ok v) (\<lambda>r. unwrapOr r d) = js_return v
   \<and> js_bind (err e) unwrapErr = js_return e
   \<and> js_bind (err e) (\<lambda>r. unwrapOr r d) = js_return d
   \<and> (\<exists>a. unwrapOr r d s = (Inr a, s))"
proof -
  have "\<exists>a. unwrapOr r d s = (Inr a, s)"
    by (cases r) (simp_all add: js_return_def)
  then show ?thesis
    by simp
qed

text \<open>
  What \<open>Err.unwrap\<close> raises: when the host's string conversion of the wrapped error returns
  a text, an \<open>Error\<close> whose description is \<open>Called unwrap on an Err value: \<close> followed by
  that text.
\<close>

lemma unwrap_Err_description:
  assumes "to_string e s = (Inr txt, s')"
  shows "unwrap to_string (Err e) s =
           (Inl (Error (''Called unwrap on an Err value: '' @ txt)), s')
    \<and> raises_mentioning txt (unwrap to_string (Err e) s)"
proof -
  have thrown: "unwrap to_string (Err e) s =
      (Inl (Error (''Called unwrap on an Err value: '' @ txt)), s')"
    using assms by (simp add: js_bind_run_returned js_throw_def)
  have "sublist txt (''Called unwrap on an Err value: '' @ txt)"
    by (rule sublist_append_leftI)
  then have mentioned: "raises_mentioning txt (unwrap to_string (Err e) s)"
    by (simp only: thrown raises_mentioning.simps)
  show ?thesis
    by (intro conjI) (fact thrown, fact mentioned)
qed

text \<open>
  C1. A mismatched extraction is to raise an error whose description includes the wrapped
  content. \<open>Err.unwrap\<close> does: on \<open>err("payload")\<close> the description is
  \<open>Called unwrap on an Err value: payload\<close>. \<open>Ok.unwrapErr\<close> does not: on \<open>ok("payload")\<close> it
  raises an \<open>Error\<close> whose description is \<open>Called unwrapErr on an Ok value\<close>, in which
  \<open>payload\<close> does not occur. (A text is its own string conversion.)
\<close>

theorem unwrapErr_description_omits_payload:
  "(unwrap js_return (Err ''payload'' :: (string, string) Result)
      :: (unit, unit, string) js) () =
     (Inl (Error ''Called unwrap on an Err value: payload''), ())
   \<and> raises_mentioning ''payload''
        ((unwrap js_return (Err ''payload'' :: (string, string) Result)
           :: (unit, unit, string) js) ())
   \<and> (unwrapErr (Ok ''payload'' :: (string, string) Result)
        :: (unit, unit, string) js) () =
     (Inl (Error ''Called unwrapErr on an Ok value''), ())
   \<and> \<not> raises_mentioning ''payload''
        ((unwrapErr (Ok ''payload'' :: (string, string) Result)
           :: (unit, unit, string) js) ())"
proof -
  have conv: "(js_return :: string \<Rightarrow> (unit, unit, string) js) ''payload'' () =
      (Inr ''payload'', ())"
    by (simp add: js_return_def)
  have sibling: "(unwrap js_return (Err ''payload'' :: (string, string) Result)
        :: (unit, unit, string) js) () =
      (Inl (Error ''Called unwrap on an Err value: payload''), ())
    \<and> raises_mentioning ''payload''
        ((unwrap js_return (Err ''payload'' :: (string, string) Result)
           :: (unit, unit, string) js) ())"
    using conv unwrap_Err_description [of js_return "''payload''" "()" "''payload''" "()"]
    by simp
  have missed: "(unwrapErr (Ok ''payload'' :: (string, string) Result)
        :: (unit, unit, string) js) () =
      (Inl (Error ''Called unwrapErr on an Ok value''), ())"
    by (simp add: js_throw_def)
  have omitted: "\<not> raises_mentioning ''payload''
        ((unwrapErr (Ok ''payload'' :: (string, string) Result)
           :: (unit, unit, string) js) ())"
    by (simp add: js_throw_def sublist_Cons_right)
  show ?thesis
    by (intro conjI) (fact sibling [THEN conjunct1], fact sibling [THEN conjunct2],
        fact missed, fact omitted)
qed

section \<open>Transformation\<close>

text \<open>
  C5. \<open>ok(v).map(fn)\<close> is \<open>ok(fn(v))\<close>: \<open>fn\<close> is called on the payload and what it returns
  is wrapped as a Success. \<open>err(e).map(fn)\<close> is \<open>err(e)\<close> for every \<open>fn\<close>, so \<open>fn\<close> is not
  called. With a spy for \<open>fn\<close>: one call, with \<open>v\<close>, on a Success; none on a Failure.
\<close>

theorem map_result_spec:
  "js_bind (ok v) (\<lambda>r. map_result r fn) = js_bind (fn v) ok
   \<and> js_bind (err e) (\<lambda>r. map_result r fn) = err e
   \<and> js_bind (ok v) (\<lambda>r. map_result r (spy id f)) calls = (Inr (Ok (f v)), calls @ [v])
   \<and> js_bind (err e) (\<lambda>r. map_result r (spy id f)) calls = (Inr (Err e), calls)"
  by (simp add: ok_eta spy_run js_bind_run_returned) (simp add: err_def js_return_def ok_def)

text \<open>
  C6. \<open>err(e).mapErr(fn)\<close> is \<open>err(fn(e))\<close>, and \<open>ok(v).mapErr(fn)\<close> is \<open>ok(v)\<close> for every
  \<open>fn\<close>, so \<open>fn\<close> is not called. With a spy for \<open>fn\<close>: one call, with \<open>e\<close>, on a Failure;
  none on a Success.
\<close>

theorem mapErr_spec:
  "js_bind (err e) (\<lambda>r. mapErr r fn) = js_bind (fn e) err
   \<and> js_bind (ok v) (\<lambda>r. mapErr r fn) = ok v
   \<and> js_bind (err e) (\<lambda>r. mapErr r (spy id f)) calls = (Inr (Err (f e)), calls @ [e])
   \<and> js_bind (ok v) (\<lambda>r. mapErr r (spy id f)) calls = (Inr (Ok v), calls)"
  by (simp add: err_eta spy_run js_bind_run_returned) (simp add: err_def js_return_def ok_def)

text \<open>
  C7. \<open>ok(v).andThen(fn)\<close> is \<open>fn(v)\<close>, the Result of \<open>fn\<close> returned as it is, and
  \<open>err(e).andThen(fn)\<close> is \<open>err(e)\<close> for every \<open>fn\<close>, so \<open>fn\<close> is not called. With a spy
  for \<open>fn\<close>: one call, with \<open>v\<close>, on a Success; none on a Failure.
\<close>

theorem andThen_spec:
  "js_bind (ok v) (\<lambda>r. andThen r fn) = fn v
   \<and> js_bind (err e) (\<lambda>r. andThen r fn) = err e
   \<and> js_bind (ok v) (\<lambda>r. andThen r (spy id f)) calls = (Inr (f v), calls @ [v])
   \<and> js_bind (err e) (\<lambda>r. andThen r (spy id f)) calls = (Inr (Err e), calls)"
  by (simp add: spy_run) (simp add: err_def js_return_def)

text \<open>
  C10. \<open>andThen\<close> is associative: \<open>r.andThen(f).andThen(g)\<close> is
  \<open>r.andThen(x => f(x).andThen(g))\<close>, in what it returns or throws and in its effects.
\<close>

theorem andThen_assoc:
  "js_bind (andThen r f) (\<lambda>r'. andThen r' g) =
     andThen r (\<lambda>x. js_bind (f x) (\<lambda>r'. andThen r' g))"
  by (cases r) simp_all

section \<open>Dispatch\<close>

text \<open>
  C8. \<open>match\<close> on a Success is one call of the \<open>ok\<close> handler with the payload, and on a
  Failure one call of the \<open>err\<close> handler with the error; what that call returns is
  returned. With a spy for each handler, whatever the Result is, the log grows by exactly
  one call: of the \<open>ok\<close> handler with the payload (\<open>Inl\<close>) on a Success, of the \<open>err\<close>
  handler with the error (\<open>Inr\<close>) on a Failure.
\<close>

theorem match_one_handler_once:
  "js_bind (ok v) (\<lambda>r. match r p) = ok_fn p v
   \<and> js_bind (err e) (\<lambda>r. match r p) = err_fn p e
   \<and> match r \<lparr>ok_fn = spy Inl f, err_fn = spy Inr g\<rparr> calls =
       (Inr (case r of Ok v \<Rightarrow> f v | Err e \<Rightarrow> g e),
        calls @ [case r of Ok v \<Rightarrow> Inl v | Err e \<Rightarrow> Inr e])"
  by (cases r) (simp_all add: spy_run)

section \<open>Promises\<close>

text \<open>
  C3. \<open>fromPromise\<close> mirrors the settlement of its input: an input that fulfills with
  \<open>v\<close> gives a promise that fulfills with \<open>ok(v)\<close>, an input that rejects with \<open>e\<close> gives
  a promise that fulfills with \<open>err(e)\<close>, an input that never settles gives a promise
  that never settles, and the promise returned never rejects.
\<close>

theorem fromPromise_mirrors_settlement:
  "fromPromise (Fulfilled v) = js_return (Fulfilled (Ok v))
   \<and> fromPromise (Rejected e) = js_return (Fulfilled (Err e))
   \<and> fromPromise Pending = js_return Pending
   \<and> fromPromise p s \<noteq> (Inr (Rejected q), s')"
  by (cases p)
    (simp_all add: fromPromise_def Promise_resolve_def result_thenable_def js_return_def)

text \<open>
  C4, as the code has it. \<open>asPromise\<close> on a Failure gives a promise rejecting with the
  wrapped error; on a Success whose payload is not a thenable it gives a promise
  fulfilling with the payload; and for every Result whose payload is not a thenable,
  \<open>fromPromise\<close> of its \<open>asPromise()\<close> fulfills with that Result.
\<close>

theorem asPromise_then_fromPromise:
  "asPromise thenable (Err e) = js_return (Rejected e)
   \<and> (\<not> payload_thenable thenable (Ok v) \<longrightarrow>
        asPromise thenable (Ok v) = js_return (Fulfilled v))
   \<and> (\<not> payload_thenable thenable r \<longrightarrow>
        js_bind (asPromise thenable r) fromPromise = js_return (Fulfilled r))"
  by (cases r)
    (simp_all add: fromPromise_def Promise_resolve_def Promise_reject_def result_thenable_def)

text \<open>At \<open>ok("v")\<close>, a text not being a thenable.\<close>

theorem asPromise_then_fromPromise_witness:
  "\<not> payload_thenable js_thenable (Ok (Text ''v''))
   \<and> (asPromise js_thenable (Ok (Text ''v''))
         :: (unit, unit, (js_value, js_value) Promise) js) () =
       (Inr (Fulfilled (Text ''v'')), ())
   \<and> (js_bind (asPromise js_thenable (Ok (Text ''v''))) fromPromise
         :: (unit, unit, ((js_value, js_value) Result, unit) Promise) js) () =
       (Inr (Fulfilled (Ok (Text ''v''))), ())"
  using asPromise_then_fromPromise [of js_thenable "Text ''e''" "Text ''v''" "Ok (Text ''v'')"]
  by (simp add: js_return_def js_bind_def fromPromise_def Promise_resolve_def result_thenable_def)

text \<open>
  C4 as stated fails on a Success that holds a promise: \<open>Promise.resolve\<close> follows the
  payload, here a promise rejecting with \<open>boom\<close>, and the round trip gives \<open>err("boom")\<close>,
  not the Success it started from.
\<close>

theorem asPromise_thenable_payload_not_inverse:
  "(js_bind (asPromise js_thenable (Ok (APromise (Rejected (Text ''boom''))))) fromPromise
      :: (unit, unit, ((js_value, js_value) Result, unit) Promise) js) ()
     = (Inr (Fulfilled (Err (Text ''boom''))), ())
   \<and> (Err (Text ''boom'') :: (js_value, js_value) Result)
       \<noteq> Ok (APromise (Rejected (Text ''boom'')))"
  by (simp add: Promise_resolve_def)
    (simp add: fromPromise_def Promise_resolve_def result_thenable_def js_return_def)

section \<open>Failure paths\<close>

text \<open>
  C2, as the code has it. \<open>unwrap\<close> on \<open>err(e)\<close> raises for every \<open>e\<close>, and \<open>unwrapErr\<close> on
  \<open>ok(v)\<close> raises for every \<open>v\<close>; these are the only failure paths of the Result type's
  own. The constructors, \<open>isOk\<close>, \<open>isErr\<close>, \<open>unwrapOr\<close>, the matching extractions and
  \<open>asPromise\<close> return, leaving the state as it was. \<open>map\<close>, \<open>mapErr\<close>, \<open>andThen\<close> and \<open>match\<close>
  raise exactly when the callback they call on the wrapped content raises, and then with
  the exception of that callback; where they call none (\<open>map\<close> and \<open>andThen\<close> on a Failure,
  \<open>mapErr\<close> on a Success) they return.
\<close>

theorem only_mismatched_extraction_raises:
  "(\<exists>x s'. unwrap to_string (Err e) s = (Inl x, s'))
   \<and> (\<exists>x. unwrapErr (Ok v) s = (Inl x, s))
   \<and> ok v s = (Inr (Ok v), s)
   \<and> err e s = (Inr (Err e), s)
   \<and> (\<exists>b. isOk r s = (Inr b, s))
   \<and> (\<exists>b. isErr r s = (Inr b, s))
   \<and> (\<exists>a. unwrapOr r d s = (Inr a, s))
   \<and> unwrap to_string (Ok v) s = (Inr v, s)
   \<and> unwrapErr (Err e) s = (Inr e, s)
   \<and> (\<exists>p. asPromise thenable r s = (Inr p, s))
   \<and> (map_result r1 f1 s = (Inl x, s') \<longleftrightarrow> (\<exists>v. r1 = Ok v \<and> f1 v s = (Inl x, s')))
   \<and> (mapErr r2 f2 s = (Inl x, s') \<longleftrightarrow> (\<exists>e. r2 = Err e \<and> f2 e s = (Inl x, s')))
   \<and> (andThen r3 f3 s = (Inl x, s') \<longleftrightarrow> (\<exists>v. r3 = Ok v \<and> f3 v s = (Inl x, s')))
   \<and> (match r4 p4 s = (Inl x, s') \<longleftrightarrow>
        (\<exists>v. r4 = Ok v \<and> ok_fn p4 v s = (Inl x, s'))
        \<or> (\<exists>e. r4 = Err e \<and> err_fn p4 e s = (Inl x, s')))
   \<and> map_result (Err e) f1 s = (Inr (Err e), s)
   \<and> mapErr (Ok v) f2 s = (Inr (Ok v), s)
   \<and> andThen (Err e) f3 s = (Inr (Err e), s)"
proof -
  have unwrap_err: "\<exists>x s'. unwrap to_string (Err e) s = (Inl x, s')"
  proof (cases "to_string e s")
    case (Pair out s1)
    then show ?thesis
      by (cases out) (simp_all add: js_bind_def js_throw_def)
  qed
  have unwrapErr_ok: "\<exists>x. unwrapErr (Ok v) s = (Inl x, s)"
    by (simp add: js_throw_def)
  have ctor: "ok v s = (Inr (Ok v), s)" "err e s = (Inr (Err e), s)"
    by (simp_all add: ok_def err_def js_return_def)
  have p1: "\<exists>b. isOk r s = (Inr b, s)"
    by (cases r) (auto simp: js_return_def)
  have p2: "\<exists>b. isErr r s = (Inr b, s)"
    by (cases r) (auto simp: js_return_def)
  have p3: "\<exists>a. unwrapOr r d s = (Inr a, s)"
    by (cases r) (simp_all add: js_return_def)
  have p4: "unwrap to_string (Ok v) s = (Inr v, s)" "unwrapErr (Err e) s = (Inr e, s)"
    by (simp_all add: js_return_def)
  have p5: "\<exists>p. asPromise thenable r s = (Inr p, s)"
    by (cases r) (simp_all add: js_return_def)
  have m1: "map_result r1 f1 s = (Inl x, s') \<longleftrightarrow> (\<exists>v. r1 = Ok v \<and> f1 v s = (Inl x, s'))"
    by (cases r1)
      (auto simp: js_return_def js_bind_run_thrown dest!: js_bind_thrown_cases)
  have m2: "mapErr r2 f2 s = (Inl x, s') \<longleftrightarrow> (\<exists>e. r2 = Err e \<and> f2 e s = (Inl x, s'))"
    by (cases r2)
      (auto simp: js_return_def js_bind_run_thrown dest!: js_bind_thrown_cases)
  have m3: "andThen r3 f3 s = (Inl x, s') \<longleftrightarrow> (\<exists>v. r3 = Ok v \<and> f3 v s = (Inl x, s'))"
    by (cases r3) (auto simp: js_return_def)
  have m4: "match r4 p4 s = (Inl x, s') \<longleftrightarrow>
        (\<exists>v. r4 = Ok v \<and> ok_fn p4 v s = (Inl x, s'))
        \<or> (\<exists>e. r4 = Err e \<and> err_fn p4 e s = (Inl x, s'))"
    by (cases r4) auto
  have n: "map_result (Err e) f1 s = (Inr (Err e), s)" "mapErr (Ok v) f2 s = (Inr (Ok v), s)"
    "andThen (Err e) f3 s = (Inr (Err e), s)"
    by (simp_all add: js_return_def)
  show ?thesis
    by (intro conjI) (fact unwrap_err, fact unwrapErr_ok, fact ctor(1), fact ctor(2), fact p1,
        fact p2, fact p3, fact p4(1), fact p4(2), fact p5, fact m1, fact m2, fact m3, fact m4,
        fact n(1), fact n(2), fact n(3))
qed

text \<open>Callbacks that throw \<open>boom\<close>, on \<open>ok(1)\<close> and \<open>err("bad")\<close>.\<close>

theorem only_mismatched_extraction_raises_witness:
  "map_result (Ok (1::nat) :: (nat, string) Result)
      (\<lambda>v. js_throw (Foreign ''boom'') :: (unit, string, nat) js) () =
        (Inl (Foreign ''boom''), ())
   \<and> mapErr (Err ''bad'' :: (nat, string) Result)
      (\<lambda>e. js_throw (Foreign ''boom'') :: (unit, string, nat) js) () =
        (Inl (Foreign ''boom''), ())
   \<and> andThen (Ok (1::nat) :: (nat, string) Result)
      (\<lambda>v. js_throw (Foreign ''boom'') :: (unit, string, (nat, string) Result) js) () =
        (Inl (Foreign ''boom''), ())
   \<and> match (Err ''bad'' :: (nat, string) Result)
      \<lparr>ok_fn = \<lambda>v. js_return v, err_fn = \<lambda>e. js_throw (Foreign ''boom'')\<rparr> () =
        (Inl (Foreign ''boom'') :: string thrown + nat, ())
   \<and> (\<exists>x. (unwrap js_return (Err ''bad'' :: (nat, string) Result)
              :: (unit, string, nat) js) () = (Inl x, ()))"
  using only_mismatched_extraction_raises
    [where ?r1.0 = "Ok (1::nat) :: (nat, string) Result"
       and ?f1.0 = "\<lambda>v. js_throw (Foreign ''boom'') :: (unit, string, nat) js"
       and ?r2.0 = "Err ''bad'' :: (nat, string) Result"
       and ?f2.0 = "\<lambda>e. js_throw (Foreign ''boom'') :: (unit, string, nat) js"
       and ?r3.0 = "Ok (1::nat) :: (nat, string) Result"
       and ?f3.0 = "\<lambda>v. js_throw (Foreign ''boom'') :: (unit, string, (nat, string) Result) js"
       and ?r4.0 = "Err ''bad'' :: (nat, string) Result"
       and ?p4.0 = "\<lparr>ok_fn = \<lambda>v. js_return v, err_fn = \<lambda>e. js_throw (Foreign ''boom'')\<rparr>"
       and s = "()" and s' = "()" and x = "Foreign ''boom''"
       and to_string = js_return and e = "''bad''"]
  by (simp add: js_throw_def js_bind_def js_return_def)

text \<open>
  C2 as stated fails where a callback throws: \<open>ok(1).map(() => { throw new Error("boom") })\<close>
  raises that error, \<open>map\<close> being neither of the two mismatched extractions.
\<close>

theorem map_raises_what_its_callback_raises:
  "map_result (Ok (1::nat) :: (nat, string) Result)
      (\<lambda>v. js_throw (Error ''boom'') :: (unit, unit, nat) js) () =
     (Inl (Error ''boom''), ())"
  by (simp add: js_throw_def js_bind_def)

end
